theory Spec2Isabelle
  imports Complex_Main "HOL-Library.Multiset"
begin

section \<open>Errors and result values\<close>

text \<open>
  The C++ code signals failure in two ways.  It throws: \<^verbatim>\<open>std::invalid_argument\<close> in the
  constructor and in the vector indexes, \<^verbatim>\<open>std::length_error\<close> in \<^verbatim>\<open>vector::reserve\<close>, and
  the graph index throws when it is full (\<open>CapacityExceeded\<close>).  And it runs into undefined
  behaviour: a read or write through a null pointer, through a pointer to a deleted node
  or past the end of a vector, and an \<^verbatim>\<open>int\<close> addition that leaves the range of the type.
  Both are values here: every operation returns \<open>error + result\<close>, with \<open>Inl\<close> for the
  failure, and the first failure ends a run.  \<open>OutOfFuel\<close> is the model's bound on loops
  that follow pointers (see below).
\<close>

datatype error = InvalidArgument | NullDeref | UseAfterFree | OutOfRange | OutOfFuel
  | SignedOverflow | LengthError | CapacityExceeded

definition bindE :: "error + 'a \<Rightarrow> ('a \<Rightarrow> error + 'b) \<Rightarrow> error + 'b" where
  "bindE m f = (case m of Inl e \<Rightarrow> Inl e | Inr x \<Rightarrow> f x)"

text \<open>\<^verbatim>\<open>v[i]\<close> on a \<^verbatim>\<open>std::vector\<close>: reading past the end is undefined behaviour.\<close>

definition at_index :: "'a list \<Rightarrow> nat \<Rightarrow> error + 'a" where
  "at_index xs i = (if i < length xs then Inr (xs ! i) else Inl OutOfRange)"

text \<open>
  \<^verbatim>\<open>std::upper_bound\<close> and \<^verbatim>\<open>std::lower_bound\<close> as offsets from \<^verbatim>\<open>begin()\<close>: the
  index of the first element greater than (not less than) the key.  The library searches
  by bisection; on the partitioned ranges it requires, that is the length of the prefix of
  elements \<open>\<le> key\<close> (\<open>< key\<close>).
\<close>

definition upper_bound :: "'k::linorder list \<Rightarrow> 'k \<Rightarrow> nat" where
  "upper_bound ks key = length (takeWhile (\<lambda>x. x \<le> key) ks)"

definition lower_bound :: "'k::linorder list \<Rightarrow> 'k \<Rightarrow> nat" where
  "lower_bound ks key = length (takeWhile (\<lambda>x. x < key) ks)"

section \<open>The augmented B+ tree (BPlusTree4.h)\<close>

subsection \<open>Nodes, the store and the tree object\<close>

text \<open>
  \<^verbatim>\<open>struct Node\<close>.  A \<^verbatim>\<open>Node*\<close> is an address (a natural number) or null (\<open>None\<close>).
  The field \<^verbatim>\<open>values\<close> is \<open>vals\<close> and \<^verbatim>\<open>next\<close> is \<open>next_leaf\<close> here.
\<close>

record ('k, 'v) node =
  isLeaf :: bool
  keys :: "'k list"
  children :: "nat list"
  vals :: "'v list list"
  next_leaf :: "nat option"
  subtree_size :: int

text \<open>
  The tree object with the memory its nodes live in: \<open>heap\<close> maps the address of every
  live node to its contents, \<^verbatim>\<open>new\<close> hands out the address \<open>fresh\<close> and increments it,
  \<^verbatim>\<open>delete\<close> removes the address from \<open>heap\<close>.
\<close>

record ('k, 'v) bptree =
  heap :: "nat \<Rightarrow> ('k, 'v) node option"
  root :: "nat option"
  order :: int
  fresh :: nat

definition deref :: "('k, 'v) bptree \<Rightarrow> nat option \<Rightarrow> error + ('k, 'v) node" where
  "deref t p = (case p of None \<Rightarrow> Inl NullDeref
                | Some a \<Rightarrow> (case heap t a of None \<Rightarrow> Inl UseAfterFree | Some n \<Rightarrow> Inr n))"

definition store :: "('k, 'v) bptree \<Rightarrow> nat \<Rightarrow> ('k, 'v) node \<Rightarrow> ('k, 'v) bptree" where
  "store t a n = t\<lparr>heap := (heap t)(a \<mapsto> n)\<rparr>"

text \<open>\<^verbatim>\<open>new Node(leaf)\<close>: the constructor sets \<^verbatim>\<open>next = nullptr\<close> and \<^verbatim>\<open>subtree_size = 0\<close>.\<close>

definition Node :: "bool \<Rightarrow> ('k, 'v) node" where
  "Node leaf = \<lparr>isLeaf = leaf, keys = [], children = [], vals = [], next_leaf = None,
                subtree_size = 0\<rparr>"

definition new_node :: "('k, 'v) bptree \<Rightarrow> ('k, 'v) node \<Rightarrow> nat \<times> ('k, 'v) bptree" where
  "new_node t n = (fresh t, t\<lparr>heap := (heap t)(fresh t \<mapsto> n), fresh := Suc (fresh t)\<rparr>)"

text \<open>
  Loops and recursions that follow pointers (\<^verbatim>\<open>while (!leaf->isLeaf)\<close>, \<^verbatim>\<open>findParent\<close>,
  the walk along \<^verbatim>\<open>next\<close>, the destructor) carry a step bound and return \<open>OutOfFuel\<close>
  when it is used up.  Every caller passes \<open>fresh t\<close>, the number of nodes ever
  allocated, which exceeds the length of every pointer path through distinct nodes.
\<close>

text \<open>\<^verbatim>\<open>Node::~Node\<close> run by \<^verbatim>\<open>delete p\<close>: an internal node deletes all its children first.\<close>

fun forM :: "('a \<Rightarrow> 's \<Rightarrow> error + 's) \<Rightarrow> 'a list \<Rightarrow> 's \<Rightarrow> error + 's" where
  "forM f [] s = Inr s"
| "forM f (x # xs) s = bindE (f x s) (forM f xs)"

fun delete_node :: "nat \<Rightarrow> nat \<Rightarrow> ('k, 'v) bptree \<Rightarrow> error + ('k, 'v) bptree" where
  "delete_node 0 a t = Inl OutOfFuel"
| "delete_node (Suc f) a t =
     bindE (deref t (Some a)) (\<lambda>n.
     bindE (if isLeaf n then Inr t else forM (delete_node f) (children n) t) (\<lambda>t1.
     Inr (t1\<lparr>heap := (heap t1)(a := None)\<rparr>)))"

subsection \<open>Subtree sizes\<close>

text \<open>\<^verbatim>\<open>updateSubtreeSize\<close>: a leaf sums the lengths of its value lists, an internal node
  sums the \<^verbatim>\<open>subtree_size\<close> fields of its children.\<close>

fun sum_child_sizes :: "('k, 'v) bptree \<Rightarrow> nat list \<Rightarrow> int \<Rightarrow> error + int" where
  "sum_child_sizes t [] cnt = Inr cnt"
| "sum_child_sizes t (c # cs) cnt =
     bindE (deref t (Some c)) (\<lambda>n. sum_child_sizes t cs (cnt + subtree_size n))"

definition updateSubtreeSize :: "('k, 'v) bptree \<Rightarrow> nat option \<Rightarrow> error + ('k, 'v) bptree" where
  "updateSubtreeSize t p =
     (case p of None \<Rightarrow> Inr t
      | Some a \<Rightarrow>
          bindE (deref t (Some a)) (\<lambda>n.
            if isLeaf n
            then Inr (store t a (n\<lparr>subtree_size := sum_list (map (\<lambda>valVec. int (length valVec)) (vals n))\<rparr>))
            else bindE (sum_child_sizes t (children n) 0) (\<lambda>cnt.
                   Inr (store t a (n\<lparr>subtree_size := cnt\<rparr>)))))"

text \<open>\<^verbatim>\<open>findParent(current, child)\<close>: depth-first search for the node that has \<open>child\<close>
  among its children, comparing pointers.\<close>

fun find_first :: "('a \<Rightarrow> error + 'b option) \<Rightarrow> 'a list \<Rightarrow> error + 'b option" where
  "find_first f [] = Inr None"
| "find_first f (x # xs) =
     bindE (f x) (\<lambda>r. case r of Some y \<Rightarrow> Inr (Some y) | None \<Rightarrow> find_first f xs)"

fun findParent :: "nat \<Rightarrow> ('k, 'v) bptree \<Rightarrow> nat option \<Rightarrow> nat \<Rightarrow> error + nat option" where
  "findParent 0 t current child = Inl OutOfFuel"
| "findParent (Suc f) t current child =
     (case current of None \<Rightarrow> Inr None
      | Some a \<Rightarrow>
          bindE (deref t (Some a)) (\<lambda>n.
            if isLeaf n then Inr None
            else find_first
                   (\<lambda>c. if c = child then Inr (Some a) else findParent f t (Some c) child)
                   (children n)))"

text \<open>\<^verbatim>\<open>updateSubtreeSizesUpwards\<close>: recompute from \<open>node\<close> up to the root, finding each
  parent with \<^verbatim>\<open>findParent(root, node)\<close>.\<close>

fun updateSubtreeSizesUpwards ::
  "nat \<Rightarrow> ('k, 'v) bptree \<Rightarrow> nat option \<Rightarrow> error + ('k, 'v) bptree" where
  "updateSubtreeSizesUpwards f t None = Inr t"
| "updateSubtreeSizesUpwards 0 t (Some a) = Inl OutOfFuel"
| "updateSubtreeSizesUpwards (Suc f) t (Some a) =
     bindE (updateSubtreeSize t (Some a)) (\<lambda>t1.
     bindE (findParent (fresh t1) t1 (root t1) a) (\<lambda>p.
     updateSubtreeSizesUpwards f t1 p))"

subsection \<open>Construction\<close>

text \<open>\<^verbatim>\<open>BPlusTree(int order)\<close>: throws for \<open>order < 3\<close>, otherwise the root is an empty leaf.\<close>

definition BPlusTree :: "int \<Rightarrow> error + ('k, 'v) bptree" where
  "BPlusTree ord =
     (if ord < 3 then Inl InvalidArgument
      else let (a, t) = new_node \<lparr>heap = Map.empty, root = None, order = ord, fresh = 0\<rparr> (Node True)
           in updateSubtreeSize (t\<lparr>root := Some a\<rparr>) (Some a))"

subsection \<open>Descent\<close>

text \<open>
  The loop \<^verbatim>\<open>while (!leaf->isLeaf) { i = upper_bound(keys, key); leaf = leaf->children[i]; }\<close>
  of \<^verbatim>\<open>insert\<close>, \<^verbatim>\<open>search\<close>, \<^verbatim>\<open>searchAll\<close>, \<^verbatim>\<open>remove\<close> and \<^verbatim>\<open>rangeQuery\<close>.  It returns the
  nodes visited, the leaf last (\<^verbatim>\<open>remove\<close> keeps them in \<^verbatim>\<open>path\<close>).
\<close>

fun descend_path ::
  "nat \<Rightarrow> ('k::linorder, 'v) bptree \<Rightarrow> nat option \<Rightarrow> 'k \<Rightarrow> error + nat list" where
  "descend_path 0 t p key = Inl OutOfFuel"
| "descend_path (Suc f) t p key =
     (case p of None \<Rightarrow> Inl NullDeref
      | Some a \<Rightarrow>
          bindE (deref t (Some a)) (\<lambda>n.
            if isLeaf n then Inr [a]
            else bindE (at_index (children n) (upper_bound (keys n) key)) (\<lambda>c.
                 bindE (descend_path f t (Some c) key) (\<lambda>path. Inr (a # path)))))"

definition descend :: "('k::linorder, 'v) bptree \<Rightarrow> 'k \<Rightarrow> error + nat" where
  "descend t key = bindE (descend_path (fresh t) t (root t) key) (\<lambda>path. Inr (last path))"

subsection \<open>Insertion\<close>

text \<open>\<^verbatim>\<open>v.insert(v.begin() + i, x)\<close> and \<^verbatim>\<open>v.erase(v.begin() + i)\<close>.\<close>

definition insert_at :: "'a list \<Rightarrow> nat \<Rightarrow> 'a \<Rightarrow> 'a list" where
  "insert_at xs i x = take i xs @ x # drop i xs"

definition erase_at :: "'a list \<Rightarrow> nat \<Rightarrow> 'a list" where
  "erase_at xs i = take i xs @ drop (Suc i) xs"

fun insertInternal ::
    "nat \<Rightarrow> 'k::linorder \<Rightarrow> nat option \<Rightarrow> nat \<Rightarrow> ('k, 'v) bptree \<Rightarrow> error + ('k, 'v) bptree"
  and splitInternal :: "nat \<Rightarrow> nat \<Rightarrow> ('k, 'v) bptree \<Rightarrow> error + ('k, 'v) bptree" where
  "insertInternal 0 key current child t = Inl OutOfFuel"
| "insertInternal (Suc f) key current child t =
     bindE (deref t current) (\<lambda>cur.
       let index = upper_bound (keys cur) key in
       if index + 1 > length (children cur) then Inl OutOfRange
       else
         let a = the current;
             t1 = store t a (cur\<lparr>keys := insert_at (keys cur) index key,
                                 children := insert_at (children cur) (index + 1) child\<rparr>)
         in if int (length (keys cur) + 1) \<ge> order t1 then splitInternal f a t1
            else updateSubtreeSizesUpwards (fresh t1) t1 (Some a))"
| "splitInternal f a t =
     bindE (deref t (Some a)) (\<lambda>internal.
       let mid = length (keys internal) div 2;
           (b, t1) = new_node t (Node False)
       in bindE (at_index (keys internal) mid) (\<lambda>upKey.
          if mid + 1 > length (children internal) then Inl OutOfRange
          else
            let t2 = store t1 b ((Node False)\<lparr>keys := drop (mid + 1) (keys internal),
                                               children := drop (mid + 1) (children internal)\<rparr>);
                t3 = store t2 a (internal\<lparr>keys := take mid (keys internal),
                                          children := take (mid + 1) (children internal)\<rparr>)
            in bindE (updateSubtreeSize t3 (Some a)) (\<lambda>t4.
               bindE (updateSubtreeSize t4 (Some b)) (\<lambda>t5.
                 if root t5 = Some a
                 then
                   let (c, t6) = new_node t5 ((Node False)\<lparr>keys := [upKey], children := [a, b]\<rparr>)
                   in bindE (updateSubtreeSize t6 (Some c)) (\<lambda>t7.
                        let t8 = t7\<lparr>root := Some c\<rparr>
                        in updateSubtreeSizesUpwards (fresh t8) t8 (Some c))
                 else
                   bindE (findParent (fresh t5) t5 (root t5) a) (\<lambda>parent.
                     insertInternal f upKey parent b t5)))))"

text \<open>\<^verbatim>\<open>splitLeaf\<close>: \<open>mid = (order + 1) / 2\<close>; the keys from \<open>mid\<close> on move to a new leaf
  that is spliced into the leaf chain, and the new leaf's first key goes to the parent.\<close>

definition splitLeaf :: "nat \<Rightarrow> ('k::linorder, 'v) bptree \<Rightarrow> error + ('k, 'v) bptree" where
  "splitLeaf a t =
     bindE (deref t (Some a)) (\<lambda>leaf.
       let mid = nat ((order t + 1) div 2);
           (b, t1) = new_node t (Node True)
       in if mid > length (keys leaf) \<or> mid > length (vals leaf) then Inl OutOfRange
          else
            let t2 = store t1 b ((Node True)\<lparr>next_leaf := next_leaf leaf,
                                              keys := drop mid (keys leaf),
                                              vals := drop mid (vals leaf)\<rparr>);
                t3 = store t2 a (leaf\<lparr>next_leaf := Some b,
                                      keys := take mid (keys leaf),
                                      vals := take mid (vals leaf)\<rparr>)
            in bindE (at_index (drop mid (keys leaf)) 0) (\<lambda>newKey.
               bindE (updateSubtreeSize t3 (Some a)) (\<lambda>t4.
               bindE (updateSubtreeSize t4 (Some b)) (\<lambda>t5.
                 if root t5 = Some a
                 then
                   let (c, t6) = new_node t5 ((Node False)\<lparr>keys := [newKey], children := [a, b]\<rparr>)
                   in bindE (updateSubtreeSize t6 (Some c)) (\<lambda>t7.
                        let t8 = t7\<lparr>root := Some c\<rparr>
                        in updateSubtreeSizesUpwards (fresh t8) t8 (Some c))
                 else
                   bindE (findParent (fresh t5) t5 (root t5) a) (\<lambda>parent.
                     insertInternal (fresh t5) newKey parent b t5)))))"

text \<open>\<^verbatim>\<open>insert(key, value)\<close>.  The source dereferences \<^verbatim>\<open>root\<close> without a null check.\<close>

definition insert_tree :: "'k::linorder \<Rightarrow> 'v \<Rightarrow> ('k, 'v) bptree \<Rightarrow> error + ('k, 'v) bptree" where
  "insert_tree key val t =
     bindE (descend t key) (\<lambda>a.
     bindE (deref t (Some a)) (\<lambda>leaf.
       let index = lower_bound (keys leaf) key in
       bindE (if index < length (keys leaf) \<and> keys leaf ! index = key
              then bindE (at_index (vals leaf) index) (\<lambda>vs.
                     Inr (leaf\<lparr>vals := (vals leaf)[index := vs @ [val]]\<rparr>))
              else if index > length (vals leaf) then Inl OutOfRange
              else Inr (leaf\<lparr>keys := insert_at (keys leaf) index key,
                              vals := insert_at (vals leaf) index [val]\<rparr>)) (\<lambda>leaf1.
         let t1 = store t a leaf1
         in if int (length (keys leaf1)) \<ge> order t1 then splitLeaf a t1
            else updateSubtreeSizesUpwards (fresh t1) t1 (Some a))))"

subsection \<open>Lookup\<close>

text \<open>\<^verbatim>\<open>searchAll(key)\<close>: \<open>None\<close> is the null pointer the source returns for an absent key.\<close>

definition searchAll :: "'k::linorder \<Rightarrow> ('k, 'v) bptree \<Rightarrow> error + 'v list option" where
  "searchAll key t =
     (case root t of None \<Rightarrow> Inr None
      | Some r \<Rightarrow>
          bindE (descend t key) (\<lambda>a.
          bindE (deref t (Some a)) (\<lambda>current.
            let index = lower_bound (keys current) key in
            if index < length (keys current) \<and> keys current ! index = key
            then bindE (at_index (vals current) index) (\<lambda>vs. Inr (Some vs))
            else Inr None)))"

text \<open>\<^verbatim>\<open>search(key)\<close>; \<open>dflt\<close> is the value-initialised \<^verbatim>\<open>ValueType()\<close>.\<close>

definition search :: "'v \<Rightarrow> 'k::linorder \<Rightarrow> ('k, 'v) bptree \<Rightarrow> error + 'v" where
  "search dflt key t =
     (case root t of None \<Rightarrow> Inr dflt
      | Some r \<Rightarrow>
          bindE (descend t key) (\<lambda>a.
          bindE (deref t (Some a)) (\<lambda>current.
            let index = lower_bound (keys current) key in
            if index < length (keys current) \<and> keys current ! index = key
            then bindE (at_index (vals current) index) (\<lambda>vs.
                   Inr (case vs of [] \<Rightarrow> dflt | v # _ \<Rightarrow> v))
            else Inr dflt)))"

subsection \<open>Removal\<close>

text \<open>\<^verbatim>\<open>borrowFromLeftLeaf\<close>: the left sibling's last key and value list move to the front
  of the leaf; the separator before the leaf becomes the leaf's new first key.\<close>

definition borrowFromLeftLeaf ::
  "nat \<Rightarrow> nat \<Rightarrow> nat \<Rightarrow> int \<Rightarrow> ('k, 'v) bptree \<Rightarrow> error + ('k, 'v) bptree" where
  "borrowFromLeftLeaf leaf leftSibling parent index t =
     bindE (deref t (Some leaf)) (\<lambda>lf.
     bindE (deref t (Some leftSibling)) (\<lambda>ls.
       if keys ls = [] \<or> vals ls = [] then Inl OutOfRange
       else
         let t1 = store t leaf (lf\<lparr>keys := last (keys ls) # keys lf,
                                    vals := last (vals ls) # vals lf\<rparr>)
         in bindE (deref t1 (Some leftSibling)) (\<lambda>ls1.
            let t2 = store t1 leftSibling (ls1\<lparr>keys := butlast (keys ls1),
                                                vals := butlast (vals ls1)\<rparr>)
            in bindE (deref t2 (Some parent)) (\<lambda>pn.
               bindE (deref t2 (Some leaf)) (\<lambda>lf2.
               bindE (at_index (keys lf2) 0) (\<lambda>front.
                 if index - 1 < 0 \<or> index - 1 \<ge> int (length (keys pn)) then Inl OutOfRange
                 else
                   let t3 = store t2 parent (pn\<lparr>keys := (keys pn)[nat (index - 1) := front]\<rparr>)
                   in updateSubtreeSizesUpwards (fresh t3) t3 (Some leaf)))))))"

text \<open>\<^verbatim>\<open>borrowFromRightLeaf\<close>: the right sibling's first key and value list move to the end
  of the leaf; the separator after the leaf becomes the right sibling's new first key.\<close>

definition borrowFromRightLeaf ::
  "nat \<Rightarrow> nat \<Rightarrow> nat \<Rightarrow> int \<Rightarrow> ('k, 'v) bptree \<Rightarrow> error + ('k, 'v) bptree" where
  "borrowFromRightLeaf leaf rightSibling parent index t =
     bindE (deref t (Some leaf)) (\<lambda>lf.
     bindE (deref t (Some rightSibling)) (\<lambda>rs.
       if keys rs = [] \<or> vals rs = [] then Inl OutOfRange
       else
         let t1 = store t leaf (lf\<lparr>keys := keys lf @ [hd (keys rs)],
                                    vals := vals lf @ [hd (vals rs)]\<rparr>)
         in bindE (deref t1 (Some rightSibling)) (\<lambda>rs1.
            let t2 = store t1 rightSibling (rs1\<lparr>keys := tl (keys rs1), vals := tl (vals rs1)\<rparr>)
            in bindE (deref t2 (Some parent)) (\<lambda>pn.
               bindE (deref t2 (Some rightSibling)) (\<lambda>rs2.
               bindE (at_index (keys rs2) 0) (\<lambda>front.
                 if index < 0 \<or> index \<ge> int (length (keys pn)) then Inl OutOfRange
                 else
                   let t3 = store t2 parent (pn\<lparr>keys := (keys pn)[nat index := front]\<rparr>)
                   in updateSubtreeSizesUpwards (fresh t3) t3 (Some leaf)))))))"

text \<open>
  \<^verbatim>\<open>mergeLeaf(left, right, parent, index)\<close>: the right leaf is appended to the left one and
  deleted, and its separator and child pointer leave the parent.  When the parent is the
  root and has no key left, \<^verbatim>\<open>root = left; delete parent;\<close> runs; the parent's child vector
  still holds \<open>left\<close> at that point, and the destructor deletes the children of an internal
  node.  The branch for an underfull parent that is not the root is empty in the source.
\<close>

definition mergeLeaf ::
  "nat \<Rightarrow> nat \<Rightarrow> nat \<Rightarrow> int \<Rightarrow> ('k, 'v) bptree \<Rightarrow> error + ('k, 'v) bptree" where
  "mergeLeaf left right parent index t =
     bindE (deref t (Some left)) (\<lambda>l.
     bindE (deref t (Some right)) (\<lambda>r.
       let t1 = store t left (l\<lparr>keys := keys l @ keys r, vals := vals l @ vals r,
                                  next_leaf := next_leaf r\<rparr>)
       in bindE (deref t1 (Some parent)) (\<lambda>pn.
          if index < 0 \<or> index \<ge> int (length (keys pn)) \<or> index + 1 \<ge> int (length (children pn))
          then Inl OutOfRange
          else
            let t2 = store t1 parent (pn\<lparr>keys := erase_at (keys pn) (nat index),
                                          children := erase_at (children pn) (nat index + 1)\<rparr>)
            in bindE (delete_node (fresh t2) right t2) (\<lambda>t3.
               bindE (updateSubtreeSize t3 (Some left)) (\<lambda>t4.
               bindE (updateSubtreeSize t4 (Some parent)) (\<lambda>t5.
               bindE (deref t5 (Some parent)) (\<lambda>pn5.
               bindE (if Some parent = root t5 \<and> keys pn5 = []
                      then delete_node (fresh t5) parent (t5\<lparr>root := Some left\<rparr>)
                      else Inr t5) (\<lambda>t6.
               updateSubtreeSizesUpwards (fresh t6) t6 (Some left)))))))))"

text \<open>The loop of \<^verbatim>\<open>remove\<close> that looks for the leaf among the children of the nodes on
  the path, from the last internal node upwards; \<open>-1\<close> when it is not found.\<close>

fun index_of :: "nat list \<Rightarrow> nat \<Rightarrow> int \<Rightarrow> int" where
  "index_of [] x j = -1"
| "index_of (c # cs) x j = (if c = x then j else index_of cs x (j + 1))"

fun parent_in_path ::
  "('k, 'v) bptree \<Rightarrow> nat list \<Rightarrow> nat \<Rightarrow> nat option \<Rightarrow> error + nat option \<times> int" where
  "parent_in_path t [] leaf parent = Inr (parent, -1)"
| "parent_in_path t (p # ps) leaf parent =
     bindE (deref t (Some p)) (\<lambda>n.
       let j = index_of (children n) leaf 0
       in if j \<noteq> -1 then Inr (Some p, j) else parent_in_path t ps leaf (Some p))"

text \<open>\<^verbatim>\<open>parent->children[i]->keys.size() > minKeys\<close> for a sibling index \<open>i\<close>.\<close>

definition sibling_can_lend ::
  "('k, 'v) bptree \<Rightarrow> ('k, 'v) node \<Rightarrow> int \<Rightarrow> int \<Rightarrow> error + bool" where
  "sibling_can_lend t pn i minKeys =
     (if i < 0 then Inl OutOfRange
      else bindE (at_index (children pn) (nat i)) (\<lambda>sib.
           bindE (deref t (Some sib)) (\<lambda>sn. Inr (int (length (keys sn)) > minKeys))))"

text \<open>The underflow branch of \<^verbatim>\<open>remove\<close>: borrow from the left sibling, else from the
  right one, else merge with the left sibling, else with the right one; with no sibling
  at all nothing is done.\<close>

definition handle_underflow ::
  "nat \<Rightarrow> nat option \<Rightarrow> int \<Rightarrow> int \<Rightarrow> ('k, 'v) bptree \<Rightarrow> error + ('k, 'v) bptree" where
  "handle_underflow leaf parent indexInParent minKeys t =
     bindE (deref t parent) (\<lambda>pn.
     let p = the parent in
     bindE (if indexInParent > 0 then sibling_can_lend t pn (indexInParent - 1) minKeys
            else Inr False) (\<lambda>lendLeft.
       if lendLeft
       then bindE (borrowFromLeftLeaf leaf (children pn ! nat (indexInParent - 1)) p indexInParent t)
              (\<lambda>t1. updateSubtreeSizesUpwards (fresh t1) t1 (Some leaf))
       else
         bindE (if indexInParent < int (length (children pn)) - 1
                then sibling_can_lend t pn (indexInParent + 1) minKeys
                else Inr False) (\<lambda>lendRight.
           if lendRight
           then bindE (borrowFromRightLeaf leaf (children pn ! nat (indexInParent + 1)) p indexInParent t)
                  (\<lambda>t1. updateSubtreeSizesUpwards (fresh t1) t1 (Some leaf))
           else if indexInParent > 0
           then
             bindE (at_index (children pn) (nat (indexInParent - 1))) (\<lambda>leftSibling.
             bindE (mergeLeaf leftSibling leaf p (indexInParent - 1) t) (\<lambda>t1.
               updateSubtreeSizesUpwards (fresh t1) t1 (Some leftSibling)))
           else if indexInParent < int (length (children pn)) - 1
           then
             bindE (at_index (children pn) (nat (indexInParent + 1))) (\<lambda>rightSibling.
             bindE (mergeLeaf leaf rightSibling p indexInParent t) (\<lambda>t1.
               updateSubtreeSizesUpwards (fresh t1) t1 (Some leaf)))
           else Inr t)))"

text \<open>\<^verbatim>\<open>remove(key)\<close>: an absent key is a no-op.\<close>

definition remove_tree :: "'k::linorder \<Rightarrow> ('k, 'v) bptree \<Rightarrow> error + ('k, 'v) bptree" where
  "remove_tree key t =
     (case root t of None \<Rightarrow> Inr t
      | Some r \<Rightarrow>
          bindE (descend_path (fresh t) t (root t) key) (\<lambda>path.
          let leaf = last path in
          bindE (deref t (Some leaf)) (\<lambda>lf.
            let index = lower_bound (keys lf) key in
            if \<not> (index < length (keys lf) \<and> keys lf ! index = key) then Inr t
            else if index \<ge> length (vals lf) then Inl OutOfRange
            else
              let lf1 = lf\<lparr>keys := erase_at (keys lf) index, vals := erase_at (vals lf) index\<rparr>;
                  t1 = store t leaf lf1
              in if Some leaf = root t1 \<and> keys lf1 = []
                 then bindE (delete_node (fresh t1) leaf t1) (\<lambda>t2. Inr (t2\<lparr>root := None\<rparr>))
                 else
                   let minKeys = (order t1 - 1) div 2
                   in if int (length (keys lf1)) < minKeys \<and> Some leaf \<noteq> root t1
                      then bindE (parent_in_path t1 (rev (butlast path)) leaf None)
                             (\<lambda>(parent, indexInParent).
                                handle_underflow leaf parent indexInParent minKeys t1)
                      else updateSubtreeSizesUpwards (fresh t1) t1 (Some leaf))))"

subsection \<open>Counting and range enumeration\<close>

text \<open>\<^verbatim>\<open>countLessOrEqualRecursive\<close>: at a leaf the value lists before \<open>upper_bound(x)\<close> are
  counted; at an internal node the \<^verbatim>\<open>subtree_size\<close> fields of the children before
  \<open>upper_bound(x)\<close> are added and the search continues in the child at that index.\<close>

fun sum_sizes_before :: "('k, 'v) bptree \<Rightarrow> nat list \<Rightarrow> nat \<Rightarrow> error + int" where
  "sum_sizes_before t cs 0 = Inr 0"
| "sum_sizes_before t [] (Suc i) = Inl OutOfRange"
| "sum_sizes_before t (c # cs) (Suc i) =
     bindE (deref t (Some c)) (\<lambda>n.
     bindE (sum_sizes_before t cs i) (\<lambda>cnt. Inr (subtree_size n + cnt)))"

fun countLessOrEqualRecursive ::
  "nat \<Rightarrow> ('k::linorder, 'v) bptree \<Rightarrow> nat option \<Rightarrow> 'k \<Rightarrow> error + int" where
  "countLessOrEqualRecursive 0 t node x = Inl OutOfFuel"
| "countLessOrEqualRecursive (Suc f) t node x =
     (case node of None \<Rightarrow> Inr 0
      | Some a \<Rightarrow>
          bindE (deref t (Some a)) (\<lambda>n.
            if isLeaf n
            then
              let idx = upper_bound (keys n) x
              in if idx > length (vals n) then Inl OutOfRange
                 else Inr (sum_list (map (\<lambda>valVec. int (length valVec)) (take idx (vals n))))
            else
              let i = upper_bound (keys n) x
              in bindE (sum_sizes_before t (children n) i) (\<lambda>cnt.
                   if i < length (children n)
                   then bindE (countLessOrEqualRecursive f t (Some (children n ! i)) x)
                          (\<lambda>c. Inr (cnt + c))
                   else Inr cnt)))"

definition countLessOrEqual :: "'k::linorder \<Rightarrow> ('k, 'v) bptree \<Rightarrow> error + int" where
  "countLessOrEqual x t = countLessOrEqualRecursive (fresh t) t (root t) x"

text \<open>
  \<^verbatim>\<open>countInRange(Smin, Smax)\<close>.  \<open>lowest\<close> is \<^verbatim>\<open>std::numeric_limits<KeyType>::lowest()\<close>,
  and \<open>sub1 Smin\<close> is the value of the expression \<^verbatim>\<open>Smin - 1\<close> in the arithmetic of the key
  type (the source comments: "assume KeyType is an integer type so (Smin-1) is valid").
  For \<^verbatim>\<open>int\<close> keys it is \<open>Smin - 1\<close>: the guard \<open>Smin > lowest\<close> keeps the subtraction in
  range.  For \<^verbatim>\<open>float\<close> keys it is the rounded difference.
\<close>

definition countInRange ::
  "'k::linorder \<Rightarrow> ('k \<Rightarrow> 'k) \<Rightarrow> 'k \<Rightarrow> 'k \<Rightarrow> ('k, 'v) bptree \<Rightarrow> error + int" where
  "countInRange lowest sub1 Smin Smax t =
     (case root t of None \<Rightarrow> Inr 0
      | Some r \<Rightarrow>
          bindE (countLessOrEqual Smax t) (\<lambda>highCount.
          bindE (if Smin > lowest then countLessOrEqual (sub1 Smin) t else Inr 0) (\<lambda>lowCount.
          Inr (highCount - lowCount))))"

text \<open>The \<^verbatim>\<open>for\<close> loop of \<^verbatim>\<open>rangeQuery\<close> over one leaf: \<open>True\<close> in the result means the loop
  returned at a key above \<open>Smax\<close>.\<close>

fun scan_leaf ::
  "'k::linorder list \<Rightarrow> 'v list list \<Rightarrow> 'k \<Rightarrow> 'k \<Rightarrow> 'v list \<Rightarrow> error + bool \<times> 'v list" where
  "scan_leaf [] vs Smin Smax results = Inr (False, results)"
| "scan_leaf (key # ks) vs Smin Smax results =
     (if key > Smax then Inr (True, results)
      else if key \<ge> Smin \<and> key \<le> Smax
      then (case vs of [] \<Rightarrow> Inl OutOfRange
            | v # vs' \<Rightarrow> scan_leaf ks vs' Smin Smax (results @ v))
      else scan_leaf ks (tl vs) Smin Smax results)"

fun walk_leaves ::
  "nat \<Rightarrow> ('k::linorder, 'v) bptree \<Rightarrow> nat option \<Rightarrow> 'k \<Rightarrow> 'k \<Rightarrow> 'v list \<Rightarrow> error + 'v list" where
  "walk_leaves f t None Smin Smax results = Inr results"
| "walk_leaves 0 t (Some a) Smin Smax results = Inl OutOfFuel"
| "walk_leaves (Suc f) t (Some a) Smin Smax results =
     bindE (deref t (Some a)) (\<lambda>current.
     bindE (scan_leaf (keys current) (vals current) Smin Smax results) (\<lambda>(done, results1).
       if done then Inr results1
       else walk_leaves f t (next_leaf current) Smin Smax results1))"

definition rangeQuery :: "'k::linorder \<Rightarrow> 'k \<Rightarrow> ('k, 'v) bptree \<Rightarrow> error + 'v list" where
  "rangeQuery Smin Smax t =
     (case root t of None \<Rightarrow> Inr []
      | Some r \<Rightarrow>
          bindE (descend t Smin) (\<lambda>a.
            walk_leaves (fresh t) t (Some a) Smin Smax []))"

subsection \<open>Sequences of operations\<close>

datatype ('k, 'v) op = Insert 'k 'v | Remove 'k

fun apply_op :: "('k::linorder, 'v) op \<Rightarrow> ('k, 'v) bptree \<Rightarrow> error + ('k, 'v) bptree" where
  "apply_op (Insert key val) t = insert_tree key val t"
| "apply_op (Remove key) t = remove_tree key t"

text \<open>A tree of the given order after the operations, in order; the first failure ends
  the run.\<close>

definition run :: "int \<Rightarrow> ('k::linorder, 'v) op list \<Rightarrow> error + ('k, 'v) bptree" where
  "run ord ops = bindE (BPlusTree ord) (forM apply_op ops)"


section \<open>The candidate-size chooser (probabilisticVectorIndex.h)\<close>

text \<open>
  \<^verbatim>\<open>binomialCDFLessThan\<close> is \<^verbatim>\<open>double\<close> arithmetic (\<^verbatim>\<open>std::pow\<close>, rounding, overflow to
  infinity and NaN) and is not modelled.  The chooser takes the outcome of the comparison
  \<^verbatim>\<open>binomialCDFLessThan(n, k, p) <= alpha\<close> as the function \<open>cdf_le n k p alpha\<close>; \<open>p\<close>
  is the quotient \<open>S / M\<close>.  The arguments \<open>M\<close>, \<open>S\<close> and \<open>k\<close> are \<^verbatim>\<open>int\<close> values; the
  additions that can leave the range of \<^verbatim>\<open>int\<close> (\<^verbatim>\<open>left + right\<close>, \<^verbatim>\<open>O++\<close>, \<^verbatim>\<open>O += 100\<close>)
  are checked, and \<^verbatim>\<open>/\<close> on \<^verbatim>\<open>int\<close> truncates towards zero.
\<close>

definition INT_MAX :: int where
  "INT_MAX = 2147483647"

definition INT_MIN :: int where
  "INT_MIN = - 2147483648"

definition int_quot :: "int \<Rightarrow> int \<Rightarrow> int" where
  "int_quot a b = (if (a < 0) = (b < 0) then \<bar>a\<bar> div \<bar>b\<bar> else - (\<bar>a\<bar> div \<bar>b\<bar>))"

function binary_search_loop ::
  "(int \<Rightarrow> bool) \<Rightarrow> int \<Rightarrow> int \<Rightarrow> int \<Rightarrow> error + int" where
  "binary_search_loop ok left right best =
     (if left \<le> right
      then if left + right > INT_MAX \<or> left + right < INT_MIN then Inl SignedOverflow
           else let mid = int_quot (left + right) 2
                in if ok mid then binary_search_loop ok left (mid - 1) mid
                   else binary_search_loop ok (mid + 1) right best
      else Inr best)"
  by pat_completeness auto
termination
  by (relation "measure (\<lambda>(ok, left, right, best). nat (right + 1 - left))")
    (auto simp add: int_quot_def)

definition computeRequiredO_BinarySearch ::
  "(int \<Rightarrow> int \<Rightarrow> real \<Rightarrow> real \<Rightarrow> bool) \<Rightarrow> int \<Rightarrow> int \<Rightarrow> int \<Rightarrow> real \<Rightarrow> error + int" where
  "computeRequiredO_BinarySearch cdf_le M S k alpha =
     (if k \<le> 0 then Inr 0
      else if S \<le> 0 then Inr k
      else if S \<ge> M then Inr k
      else if alpha \<le> 0 then Inr k
      else let p = real_of_int S / real_of_int M
           in binary_search_loop (\<lambda>mid. cdf_le mid k p alpha) k M M)"

function linear_loop :: "(int \<Rightarrow> bool) \<Rightarrow> int \<Rightarrow> int \<Rightarrow> error + int" where
  "linear_loop ok O' M =
     (if O' \<le> M
      then if ok O' then Inr O'
           else if O' \<ge> INT_MAX then Inl SignedOverflow
           else linear_loop ok (O' + 1) M
      else Inr M)"
  by pat_completeness auto
termination
  by (relation "measure (\<lambda>(ok, O', M). nat (M + 1 - O'))") auto

definition computeRequiredO_Linear ::
  "(int \<Rightarrow> int \<Rightarrow> real \<Rightarrow> real \<Rightarrow> bool) \<Rightarrow> int \<Rightarrow> int \<Rightarrow> int \<Rightarrow> real \<Rightarrow> error + int" where
  "computeRequiredO_Linear cdf_le M S k alpha =
     (if k \<le> 0 then Inr 0
      else if S \<le> 0 then Inr k
      else if S \<ge> M then Inr k
      else if alpha \<le> 0 then Inr k
      else let p = real_of_int S / real_of_int M
           in linear_loop (\<lambda>O'. cdf_le O' k p alpha) k M)"

text \<open>\<^verbatim>\<open>computeRequiredO_Enhanced\<close>: the binary search, then \<^verbatim>\<open>O += 100\<close>.\<close>

definition computeRequiredO_Enhanced ::
  "(int \<Rightarrow> int \<Rightarrow> real \<Rightarrow> real \<Rightarrow> bool) \<Rightarrow> int \<Rightarrow> int \<Rightarrow> int \<Rightarrow> real \<Rightarrow> error + int" where
  "computeRequiredO_Enhanced cdf_le M S k alpha =
     bindE (computeRequiredO_BinarySearch cdf_le M S k alpha) (\<lambda>O'.
       if O' > INT_MAX - 100 then Inl SignedOverflow else Inr (O' + 100))"

section \<open>The vector indexes (vectorIndex.h, probabilisticVectorIndex.h)\<close>

text \<open>
  The type \<^verbatim>\<open>float\<close> is a type parameter \<open>'f\<close> with a linear order (the comparisons of the
  finite values and the infinities; NaN is left out).  Its arithmetic rounds, and is not
  fixed here: the indexes take the operations they use as a record.
  \<^item> \<open>fl_lowest\<close> is \<^verbatim>\<open>std::numeric_limits<float>::lowest()\<close>,
  \<^item> \<open>fl_zero\<close> is \<^verbatim>\<open>0.0f\<close>,
  \<^item> \<open>fl_sub_one x\<close> is \<^verbatim>\<open>x - 1\<close>, the expression of \<^verbatim>\<open>countInRange\<close> at the key type \<^verbatim>\<open>float\<close>,
  \<^item> \<open>fl_sub x y\<close> is \<^verbatim>\<open>x - y\<close>,
  \<^item> \<open>fl_acc dist diff\<close> is the new value of \<^verbatim>\<open>dist\<close> after \<^verbatim>\<open>dist += diff * diff\<close>.
\<close>

record 'f float_ops =
  fl_lowest :: 'f
  fl_zero :: 'f
  fl_sub_one :: "'f \<Rightarrow> 'f"
  fl_sub :: "'f \<Rightarrow> 'f \<Rightarrow> 'f"
  fl_acc :: "'f \<Rightarrow> 'f \<Rightarrow> 'f"

text \<open>
  The finite floats are rational numbers, and on operands whose exact result is a float
  again (small integers and halves, as in the examples of this theory) the operations of
  the type do not round.  \<open>unrounded\<close> is the arithmetic for such operands;
  \<open>fl_lowest\<close> is \<open>-(2\<^sup>2\<^sup>4 - 1) * 2\<^sup>1\<^sup>0\<^sup>4\<close>.
\<close>

definition unrounded :: "rat float_ops" where
  "unrounded = \<lparr>fl_lowest = - (of_int (2 ^ 24 - 1) * 2 ^ 104), fl_zero = 0,
                 fl_sub_one = (\<lambda>x. x - 1), fl_sub = (\<lambda>x y. x - y),
                 fl_acc = (\<lambda>dist diff. dist + diff * diff)\<rparr>"

text \<open>
  The HNSW graph index of hnswlib is outside the repository.  Its state is the list of
  points added with their labels and the search effort set by \<^verbatim>\<open>setEf\<close>; \<^verbatim>\<open>addPoint\<close>
  throws once \<^verbatim>\<open>maxElements\<close> points are stored.  Its search \<^verbatim>\<open>searchKnn(query, O)\<close> is a
  parameter \<open>searchKnn\<close> of the queries, giving the labels in the order in which the
  result queue is popped.
\<close>

record 'f hnsw =
  points :: "('f list \<times> int) list"
  ef :: int

type_synonym 'f knn = "'f hnsw \<Rightarrow> 'f list \<Rightarrow> int \<Rightarrow> int list"



record 'f vindex =
  tree :: "('f, int) bptree"
  dataVectors :: "'f list list"
  sValues :: "'f list"
  dimension :: int
  hnswIndex :: "'f hnsw option"
  hnswEfSearch :: int

text \<open>The constructor of both classes: \<^verbatim>\<open>tree(order), dimension(0), hnswIndex(nullptr),
  hnswEfSearch(200)\<close>.\<close>

definition VectorIndex :: "int \<Rightarrow> error + 'f vindex" where
  "VectorIndex ord =
     bindE (BPlusTree ord) (\<lambda>t.
       Inr \<lparr>tree = t, dataVectors = [], sValues = [], dimension = 0, hnswIndex = None,
            hnswEfSearch = 200\<rparr>)"


text \<open>\<^verbatim>\<open>euclideanDistSquared(a, b)\<close>: the loop runs over the indexes of \<open>a\<close> and reads \<open>b\<close> at
  each of them.\<close>

fun dist_loop :: "'f float_ops \<Rightarrow> 'f list \<Rightarrow> 'f list \<Rightarrow> 'f \<Rightarrow> error + 'f" where
  "dist_loop fl [] b d = Inr d"
| "dist_loop fl (x # a) [] d = Inl OutOfRange"
| "dist_loop fl (x # a) (y # b) d = dist_loop fl a b (fl_acc fl d (fl_sub fl x y))"

definition euclideanDistSquared :: "'f float_ops \<Rightarrow> 'f list \<Rightarrow> 'f list \<Rightarrow> error + 'f" where
  "euclideanDistSquared fl a b = dist_loop fl a b (fl_zero fl)"

text \<open>\<^verbatim>\<open>sOfIndex(idx)\<close> and \<^verbatim>\<open>dataVectors[idx]\<close> for an \<^verbatim>\<open>int\<close> index.\<close>

definition at_int :: "'a list \<Rightarrow> int \<Rightarrow> error + 'a" where
  "at_int xs i = (if 0 \<le> i \<and> i < int (length xs) then Inr (xs ! nat i) else Inl OutOfRange)"

definition sOfIndex :: "'f vindex \<Rightarrow> int \<Rightarrow> error + 'f" where
  "sOfIndex ix idx = at_int (sValues ix) idx"

text \<open>
  \<^verbatim>\<open>std::sort(first, last, comp)\<close> with \<^verbatim>\<open>comp(a, b) = a.first < b.first\<close> is library code.
  The standard promises a permutation of the input that is ordered by \<open>comp\<close> and leaves
  the order of equivalent elements unspecified.  The queries take the sort as a
  parameter; \<open>std_sort_contract\<close> is what the standard promises of it.
\<close>

type_synonym 'f sorter = "('f \<times> int) list \<Rightarrow> ('f \<times> int) list"


text \<open>The loop \<^verbatim>\<open>for (int i = 0; i < k && i < distIndex.size(); i++)\<close> collecting ids.\<close>

definition top_k :: "int \<Rightarrow> ('f \<times> int) list \<Rightarrow> int list" where
  "top_k k distIndex = map snd (take (nat k) distIndex)"

text \<open>The scan branch's loop: the distance of every candidate.\<close>

fun with_distances ::
  "'f float_ops \<Rightarrow> 'f vindex \<Rightarrow> 'f list \<Rightarrow> int list \<Rightarrow> error + ('f \<times> int) list" where
  "with_distances fl ix v [] = Inr []"
| "with_distances fl ix v (idx # cands) =
     bindE (at_int (dataVectors ix) idx) (\<lambda>w.
     bindE (euclideanDistSquared fl v w) (\<lambda>dist.
     bindE (with_distances fl ix v cands) (\<lambda>rest. Inr ((dist, idx) # rest))))"

text \<open>The ANN branch's loop: candidates whose scalar is outside \<open>[Smin, Smax]\<close> are
  dropped.\<close>

fun filter_candidates ::
  "'f::linorder float_ops \<Rightarrow> 'f vindex \<Rightarrow> 'f list \<Rightarrow> 'f \<Rightarrow> 'f \<Rightarrow> int list
   \<Rightarrow> error + ('f \<times> int) list" where
  "filter_candidates fl ix v Smin Smax [] = Inr []"
| "filter_candidates fl ix v Smin Smax (idx # cands) =
     bindE (sOfIndex ix idx) (\<lambda>sVal.
       if sVal \<ge> Smin \<and> sVal \<le> Smax
       then bindE (at_int (dataVectors ix) idx) (\<lambda>w.
            bindE (euclideanDistSquared fl v w) (\<lambda>dist.
            bindE (filter_candidates fl ix v Smin Smax cands) (\<lambda>rest. Inr ((dist, idx) # rest))))
       else filter_candidates fl ix v Smin Smax cands)"

text \<open>\<^verbatim>\<open>VectorIndex::approximateNearestNeighbors\<close>: the queue is emptied and the list
  reversed.\<close>

definition approximateNearestNeighbors ::
  "'f knn \<Rightarrow> 'f vindex \<Rightarrow> 'f list \<Rightarrow> int \<Rightarrow> int list" where
  "approximateNearestNeighbors searchKnn ix q O' =
     (case hnswIndex ix of None \<Rightarrow> [] | Some h \<Rightarrow> rev (searchKnn h q O'))"

text \<open>\<^verbatim>\<open>VectorIndex::query(v, k, Smin, Smax, O)\<close>, the threshold-gated planner.\<close>

definition query_fixed ::
  "'f::linorder float_ops \<Rightarrow> 'f knn \<Rightarrow> 'f sorter \<Rightarrow>
   'f list \<Rightarrow> int \<Rightarrow> 'f \<Rightarrow> 'f \<Rightarrow> int \<Rightarrow> 'f vindex \<Rightarrow> error + int list" where
  "query_fixed fl searchKnn srt v k Smin Smax O' ix =
     (if hnswIndex ix = None \<or> dataVectors ix = [] then Inr []
      else if int (length v) \<noteq> dimension ix then Inl InvalidArgument
      else
        bindE (countInRange (fl_lowest fl) (fl_sub_one fl) Smin Smax (tree ix)) (\<lambda>cnt.
          if cnt \<le> 0 then Inr []
          else if cnt < O'
          then bindE (rangeQuery Smin Smax (tree ix)) (\<lambda>candidates.
               bindE (with_distances fl ix v candidates) (\<lambda>distIndex.
                 Inr (top_k k (srt distIndex))))
          else bindE (filter_candidates fl ix v Smin Smax
                        (approximateNearestNeighbors searchKnn ix v O')) (\<lambda>distIndex.
                 Inr (top_k k (srt distIndex)))))"

text \<open>\<^verbatim>\<open>ProbabilisticVectorIndex::approximateNearestNeighbors\<close> also returns nothing for
  \<open>O \<le> 0\<close>.\<close>

definition approximateNearestNeighbors_prob ::
  "'f knn \<Rightarrow> 'f vindex \<Rightarrow> 'f list \<Rightarrow> int \<Rightarrow> int list" where
  "approximateNearestNeighbors_prob searchKnn ix q O' =
     (case hnswIndex ix of None \<Rightarrow> []
      | Some h \<Rightarrow> if O' \<le> 0 then [] else rev (searchKnn h q O'))"

text \<open>
  \<^verbatim>\<open>ProbabilisticVectorIndex::query(v, k, Smin, Smax, alpha)\<close>, the probabilistic planner.
  \<^verbatim>\<open>setEf(std::max(hnswEfSearch, O + 50))\<close> changes the state of the graph index before the
  search, and \<^verbatim>\<open>result.reserve(k)\<close> throws \<^verbatim>\<open>std::length_error\<close> for a negative \<open>k\<close>, which it
  receives as a \<^verbatim>\<open>size_t\<close> above \<^verbatim>\<open>max_size()\<close>.
\<close>

definition query_prob ::
  "(int \<Rightarrow> int \<Rightarrow> real \<Rightarrow> real \<Rightarrow> bool) \<Rightarrow> 'f::linorder float_ops \<Rightarrow> 'f knn \<Rightarrow> 'f sorter \<Rightarrow>
   'f list \<Rightarrow> int \<Rightarrow> 'f \<Rightarrow> 'f \<Rightarrow> real \<Rightarrow> 'f vindex \<Rightarrow> error + int list" where
  "query_prob cdf_le fl searchKnn srt v k Smin Smax alpha ix =
     (if hnswIndex ix = None \<or> dataVectors ix = [] then Inr []
      else if int (length v) \<noteq> dimension ix then Inl InvalidArgument
      else
        bindE (countInRange (fl_lowest fl) (fl_sub_one fl) Smin Smax (tree ix)) (\<lambda>S.
          if S \<le> 0 then Inr []
          else
            let M = int (length (dataVectors ix))
            in bindE (computeRequiredO_Enhanced cdf_le M S k alpha) (\<lambda>O'.
               if O' > INT_MAX - 50 then Inl SignedOverflow
               else
                 let ix1 = ix\<lparr>hnswIndex := map_option (\<lambda>h. h\<lparr>ef := max (hnswEfSearch ix) (O' + 50)\<rparr>)
                                               (hnswIndex ix)\<rparr>
                 in bindE (filter_candidates fl ix1 v Smin Smax
                             (approximateNearestNeighbors_prob searchKnn ix1 v O')) (\<lambda>distIndex.
                      let sorted_distIndex = srt distIndex
                      in if k < 0 then Inl LengthError
                         else Inr (top_k k sorted_distIndex)))))"


text \<open>What a run leaves to look at: the failure, if any, and the contents of a node.\<close>

definition failure :: "error + 'a \<Rightarrow> error option" where
  "failure r = (case r of Inl e \<Rightarrow> Some e | Inr _ \<Rightarrow> None)"

definition node_at ::
  "nat \<Rightarrow> error + ('k, 'v) bptree \<Rightarrow> ('k list \<times> 'v list list \<times> nat list \<times> int) option" where
  "node_at a r =
     (case r of Inl e \<Rightarrow> None
      | Inr t \<Rightarrow> map_option (\<lambda>n. (keys n, vals n, children n, subtree_size n)) (heap t a))"



section \<open>Basic facts\<close>

lemma bindE_Inr [simp]: "bindE (Inr x) f = f x"
  by (simp add: bindE_def)

lemma bindE_Inl [simp]: "bindE (Inl e) f = Inl e"
  by (simp add: bindE_def)


section \<open>The chooser's edge cases\<close>

text \<open>
  Claim C7, as stated, fails: the chooser the probabilistic planner calls is
  \<^verbatim>\<open>computeRequiredO_Enhanced\<close>, and for \<open>k = 0\<close> it returns 100, not 0.
\<close>

theorem chooser_edge_case_counterexample:
  "computeRequiredO_Enhanced (\<lambda>n k p a. True) 10 5 0 (1 / 100) = Inr 100"
  by (simp add: computeRequiredO_Enhanced_def computeRequiredO_BinarySearch_def INT_MAX_def)

text \<open>
  Claim C7, amended: the binary-search chooser returns 0 when \<open>k \<le> 0\<close>, and \<open>k\<close> when
  \<open>k > 0\<close> and \<open>S \<le> 0\<close>, \<open>S \<ge> M\<close> or \<open>\<alpha> \<le> 0\<close>.  The chooser the planner calls adds the
  safety margin to that: it returns 100 when \<open>k \<le> 0\<close>, and on the other edge cases
  \<open>k + 100\<close> when \<open>k \<le> INT_MAX - 100\<close>; for a larger \<open>k\<close> the addition \<^verbatim>\<open>O += 100\<close> leaves
  the range of \<^verbatim>\<open>int\<close>, which is undefined behaviour.
\<close>

theorem chooser_edge_cases:
  "(k \<le> 0 \<longrightarrow>
      computeRequiredO_BinarySearch cdf_le M S k alpha = Inr 0 \<and>
      computeRequiredO_Enhanced cdf_le M S k alpha = Inr 100) \<and>
   (0 < k \<and> (S \<le> 0 \<or> M \<le> S \<or> alpha \<le> 0) \<longrightarrow>
      computeRequiredO_BinarySearch cdf_le M S k alpha = Inr k \<and>
      computeRequiredO_Enhanced cdf_le M S k alpha =
        (if k \<le> INT_MAX - 100 then Inr (k + 100) else Inl SignedOverflow))"
  by (auto simp add: computeRequiredO_Enhanced_def computeRequiredO_BinarySearch_def INT_MAX_def)

theorem chooser_edge_cases_witness:
  "computeRequiredO_BinarySearch (\<lambda>n k p a. True) 10 5 0 (1 / 100) = Inr 0 \<and>
   computeRequiredO_Enhanced (\<lambda>n k p a. True) 10 5 0 (1 / 100) = Inr 100 \<and>
   computeRequiredO_BinarySearch (\<lambda>n k p a. True) 10 0 3 (1 / 100) = Inr 3 \<and>
   computeRequiredO_Enhanced (\<lambda>n k p a. True) 10 0 3 (1 / 100) = Inr 103 \<and>
   computeRequiredO_Enhanced (\<lambda>n k p a. True) 10 10 3 (1 / 100) = Inr 103 \<and>
   computeRequiredO_Enhanced (\<lambda>n k p a. True) 10 5 3 0 = Inr 103 \<and>
   computeRequiredO_BinarySearch (\<lambda>n k p a. True) 10 10 2147483647 (1 / 100) = Inr 2147483647 \<and>
   computeRequiredO_Enhanced (\<lambda>n k p a. True) 10 10 2147483647 (1 / 100) = Inl SignedOverflow"
  using chooser_edge_cases [where k = 0 and cdf_le = "\<lambda>n k p a. True" and M = 10 and S = 5
      and alpha = "1 / 100"]
    chooser_edge_cases [where k = 3 and cdf_le = "\<lambda>n k p a. True" and M = 10 and S = 0
      and alpha = "1 / 100"]
    chooser_edge_cases [where k = 3 and cdf_le = "\<lambda>n k p a. True" and M = 10 and S = 10
      and alpha = "1 / 100"]
    chooser_edge_cases [where k = 3 and cdf_le = "\<lambda>n k p a. True" and M = 10 and S = 5
      and alpha = 0]
    chooser_edge_cases [where k = 2147483647 and cdf_le = "\<lambda>n k p a. True" and M = 10
      and S = 10 and alpha = "1 / 100"]
  by (simp add: INT_MAX_def)

section \<open>Queries before the first insert\<close>

text \<open>
  Claim C6, as stated, fails: on an index without records both queries succeed with the
  empty result (\<^verbatim>\<open>return {};\<close>), they raise nothing.
\<close>

theorem query_before_insert_counterexample:
  "bindE (VectorIndex 4)
     (query_fixed unrounded (\<lambda>h q n. []) (sort_key fst) [1, 2] 5 0 10 1000) = Inr [] \<and>
   bindE (VectorIndex 4)
     (query_prob (\<lambda>n k p a. True) unrounded (\<lambda>h q n. []) (sort_key fst) [1, 2] 5 0 10 (1 / 100))
     = Inr []"
  by (simp add: VectorIndex_def BPlusTree_def new_node_def Node_def updateSubtreeSize_def
      deref_def store_def query_fixed_def query_prob_def)

text \<open>
  Claim C6, amended: a query issued on an index before any insert returns the empty
  sequence as a success, for every query vector, \<open>k\<close>, range and \<open>O\<close> or \<open>\<alpha>\<close>; no error
  is surfaced.
\<close>

theorem query_before_insert_empty:
  "3 \<le> ord \<Longrightarrow>
   bindE (VectorIndex ord) (query_fixed fl searchKnn srt v k Smin Smax O') = Inr [] \<and>
   bindE (VectorIndex ord) (query_prob cdf_le fl searchKnn srt v k Smin Smax alpha) = Inr []"
  by (simp add: VectorIndex_def BPlusTree_def new_node_def Node_def updateSubtreeSize_def
      deref_def store_def query_fixed_def query_prob_def)

theorem query_before_insert_empty_witness:
  "(3::int) \<le> 3 \<and>
   bindE (VectorIndex 3) (query_fixed unrounded (\<lambda>h q n. [7]) id [1] 1 0 1 0) = Inr [] \<and>
   bindE (VectorIndex 3) (query_prob (\<lambda>n k p a. False) unrounded (\<lambda>h q n. [7]) id [1] 1 0 1 1)
     = Inr []"
  using query_before_insert_empty [where ord = 3 and fl = unrounded
      and searchKnn = "\<lambda>h q n. [7]" and srt = id
      and v = "[1]" and k = 1 and Smin = 0 and Smax = 1 and O' = 0
      and cdf_le = "\<lambda>n k p a. False" and alpha = 1]
  by simp

section \<open>Failing runs of the tree\<close>

text \<open>
  Claim C2 on the code: in an order-3 tree holding the keys 1, 2, 3, \<^verbatim>\<open>remove(3)\<close> borrows
  the key 2 from the left leaf.  Afterwards the left leaf (address 0) holds one pair and
  its \<^verbatim>\<open>subtree_size\<close> is still 2, and the root (address 2) counts 3 for two pairs.
\<close>

theorem subtree_size_stale_after_borrow:
  "node_at 0 (run 3 [Insert (1::int) ''a'', Insert 2 ''b'', Insert 3 ''c'', Remove 3])
     = Some ([1], [[''a'']], [], 2) \<and>
   node_at 1 (run 3 [Insert (1::int) ''a'', Insert 2 ''b'', Insert 3 ''c'', Remove 3])
     = Some ([2], [[''b'']], [], 1) \<and>
   node_at 2 (run 3 [Insert (1::int) ''a'', Insert 2 ''b'', Insert 3 ''c'', Remove 3])
     = Some ([2], [], [0, 1], 3)"
  by code_simp

text \<open>
  Claim C1 on the code: in the state above the tree holds the two pairs \<open>(1, a)\<close> and
  \<open>(2, b)\<close>, as the range query lists them, and \<^verbatim>\<open>countInRange(1, 3)\<close> returns 3: it adds
  the \<^verbatim>\<open>subtree_size\<close> of the left leaf, which the borrow did not recompute.  The keys are
  \<^verbatim>\<open>int\<close> values.
\<close>

theorem count_in_range_wrong_after_borrow:
  "bindE (run 3 [Insert (1::int) ''a'', Insert 2 ''b'', Insert 3 ''c'', Remove 3])
     (countInRange INT_MIN (\<lambda>x. x - 1) 1 3) = Inr 3 \<and>
   bindE (run 3 [Insert (1::int) ''a'', Insert 2 ''b'', Insert 3 ''c'', Remove 3])
     (rangeQuery 1 3) = Inr [''a'', ''b'']"
  by code_simp

text \<open>
  With \<^verbatim>\<open>float\<close> keys the count is also wrong without any removal: the tree holds the one
  key \<open>1/2\<close>, no key lies in \<open>[1, 2]\<close>, and \<^verbatim>\<open>countInRange(1, 2)\<close> subtracts the count of
  the keys up to \<open>1 - 1 = 0\<close> and returns 1.
\<close>

lemma count_in_range_fractional_key:
  "bindE (run 3 [Insert (1 / 2 :: rat) (0::int)])
     (countInRange (fl_lowest unrounded) (fl_sub_one unrounded) 1 2) = Inr 1 \<and>
   bindE (run 3 [Insert (1 / 2 :: rat) (0::int)]) (rangeQuery 1 2) = Inr []"
  by code_simp

text \<open>
  Claim C5 on the code: after the borrow above, \<^verbatim>\<open>remove(2)\<close> merges the two leaves under
  the root; \<^verbatim>\<open>mergeLeaf\<close> makes the left leaf the root and deletes the old root, whose
  destructor deletes that leaf, and then reads the leaf.  Before that \<^verbatim>\<open>remove\<close> the key 2
  is found with its value; the \<^verbatim>\<open>remove\<close> and every lookup after it run on a deleted node.
\<close>

theorem remove_merge_use_after_free:
  "bindE (run 3 [Insert (1::int) ''a'', Insert 2 ''b'', Insert 3 ''c'', Remove 3]) (searchAll 2)
     = Inr (Some [''b'']) \<and>
   failure (run 3 [Insert (1::int) ''a'', Insert 2 ''b'', Insert 3 ''c'', Remove 3, Remove 2])
     = Some UseAfterFree \<and>
   failure (bindE (run 3 [Insert (1::int) ''a'', Insert 2 ''b'', Insert 3 ''c'', Remove 3, Remove 2])
              (searchAll 2))
     = Some UseAfterFree"
  by code_simp

text \<open>
  Claim C3 on the code: the same borrow and merge under the root with other keys.  After
  the first \<^verbatim>\<open>remove\<close> the range query lists the two values left.  The second \<^verbatim>\<open>remove\<close>
  deletes the leaf it makes the root and reads it, and the range query that follows
  starts at that deleted node.
\<close>

theorem range_query_after_merge_undefined:
  "bindE (run 3 [Insert (10::int) ''a'', Insert 20 ''b'', Insert 30 ''c'', Remove 30])
     (rangeQuery 10 20) = Inr [''a'', ''b''] \<and>
   failure (run 3 [Insert (10::int) ''a'', Insert 20 ''b'', Insert 30 ''c'',
                   Remove 30, Remove 20])
     = Some UseAfterFree \<and>
   failure (bindE (run 3 [Insert (10::int) ''a'', Insert 20 ''b'', Insert 30 ''c'',
                          Remove 30, Remove 20])
              (rangeQuery 10 20))
     = Some UseAfterFree"
  by code_simp

text \<open>
  Claim C9 on the code: after \<^verbatim>\<open>remove\<close> has deleted the last key the root is null.  The
  read operations return their empty results, and \<^verbatim>\<open>insert\<close> dereferences the null root.
\<close>

theorem insert_after_emptying_null_deref:
  "bindE (run 3 [Insert (1::int) ''a'', Remove 1]) (search ''default'' 1) = Inr ''default'' \<and>
   bindE (run 3 [Insert (1::int) ''a'', Remove 1]) (searchAll 1) = Inr None \<and>
   bindE (run 3 [Insert (1::int) ''a'', Remove 1]) (rangeQuery 0 5) = Inr [] \<and>
   bindE (run 3 [Insert (1::int) ''a'', Remove 1]) (countLessOrEqual 5) = Inr 0 \<and>
   bindE (run 3 [Insert (1::int) ''a'', Remove 1]) (countInRange INT_MIN (\<lambda>x. x - 1) 0 5) = Inr 0 \<and>
   failure (run 3 [Insert (1::int) ''a'', Remove 1, Insert 2 ''b'']) = Some NullDeref"
  by code_simp

section \<open>The order of a query result\<close>

lemma with_distances_ignores_hnsw [simp]:
  "with_distances fl (ix\<lparr>hnswIndex := h\<rparr>) v cands = with_distances fl ix v cands"
  by (induction cands) simp_all








end
